theory Spec2Isabelle
  imports Main
begin

section \<open>Values exchanged with the libraries\<close>

text \<open>
  The repository holds two programs, each a single \<open>main\<close>: the rest-like single-use
  server (lines 15-166 of \<open>restSingleUseServer/main.go\<close>) and the direct-channel sender
  (lines 185-349). Both only sequence calls into the operating system and the xxdk library,
  so the model is a run of \<open>main\<close> against an environment that answers every such call,
  and the result of a run is the trace of calls and log lines together with the way the
  process ends.

  A Go \<open>[]byte\<close> and a Go \<open>string\<close> are both byte sequences; a slice can also be
  \<open>nil\<close>, which is \<open>None\<close> here.
\<close>

type_synonym bytes = string

datatype error = ErrNotExist | ErrOther string

text \<open>\<open>errors.Is(err, fs.ErrNotExist)\<close>\<close>

definition errors_Is_ErrNotExist :: "error option \<Rightarrow> bool" where
  "errors_Is_ErrNotExist err = (err = Some ErrNotExist)"

text \<open>\<open>string(b)\<close> for a slice \<open>b\<close>: the nil slice converts to the empty string.\<close>

definition string_of :: "bytes option \<Rightarrow> string" where
  "string_of b = (case b of None \<Rightarrow> [] | Some s \<Rightarrow> s)"

datatype contact = Contact nat

datatype Cmix = Cmix nat

record ReceptionIdentity =
  ID :: nat
  DHKeyPrivate :: "bytes option"
  GetContact :: contact

record E2e =
  GetReceptionIdentity :: ReceptionIdentity
  GetGroup :: nat
  GetCmix :: Cmix

datatype CMIXParams = GetDefaultCMixParams

datatype E2EParams = GetDefaultE2EParams

datatype E2EBase = Base E2EParams

datatype handler = Handler nat

datatype MessageType = NoType | XxMessage

text \<open>The three values \<open>SendE2E\<close> returns beside its error.\<close>

record sent =
  roundIDs :: "nat list"
  messageID :: nat
  timeSent :: nat

text \<open>
  One iteration of the \<open>select\<close> in \<open>waitUntilConnected\<close> either receives a value
  from the channel \<open>connected\<close> or receives from the timer's channel.
\<close>

datatype sel = Recv bool | TimerC

section \<open>The environment\<close>

text \<open>
  Every call of the programs into \<open>os\<close>, \<open>ioutil\<close>, \<open>xxdk\<close>, \<open>cyclic\<close>,
  \<open>contact\<close> and \<open>connect\<close> is answered by the environment. A call that returns
  \<open>(value, err)\<close> whose value the program reads only when \<open>err\<close> is nil is a sum,
  \<open>Inl\<close> the error. \<open>ioutil.ReadFile\<close>, \<open>DownloadAndVerifySignedNdfWithUrl\<close> and
  \<open>SendE2E\<close> keep both components, since the programs read the value whatever the error.
  No call site other than the \<open>select\<close> runs twice in one run, and the \<open>select\<close> is
  answered by the list \<open>selects\<close>, one entry for each iteration.
\<close>

record env =
  Stat :: "string \<Rightarrow> error option"
  ReadFile :: "string \<Rightarrow> bytes option \<times> error option"
  DownloadAndVerifySignedNdfWithUrl :: "string \<Rightarrow> string \<Rightarrow> bytes option \<times> error option"
  NewCmix :: "string \<Rightarrow> string \<Rightarrow> bytes \<Rightarrow> string \<Rightarrow> error option"
  LoadCmix :: "string \<Rightarrow> bytes \<Rightarrow> CMIXParams \<Rightarrow> error + Cmix"
  LoadReceptionIdentity :: "string \<Rightarrow> Cmix \<Rightarrow> error + ReceptionIdentity"
  MakeReceptionIdentity :: "Cmix \<Rightarrow> error + ReceptionIdentity"
  StoreReceptionIdentity :: "string \<Rightarrow> ReceptionIdentity \<Rightarrow> Cmix \<Rightarrow> error option"
  Login :: "Cmix \<Rightarrow> ReceptionIdentity \<Rightarrow> E2EParams \<Rightarrow> error + E2e"
  UnmarshalJSON :: "bytes option \<Rightarrow> error option"
  StartNetworkFollower :: "nat \<Rightarrow> error option"
  selects :: "sel list"
  Unmarshal :: "bytes option \<Rightarrow> error + contact"
  Connect :: "contact \<Rightarrow> E2e \<Rightarrow> E2EParams \<Rightarrow> error + handler"
  RegisterListener :: "handler \<Rightarrow> MessageType \<Rightarrow> string \<Rightarrow> error option"
  SendE2E :: "handler \<Rightarrow> MessageType \<Rightarrow> bytes \<Rightarrow> E2EBase \<Rightarrow> sent \<times> error option"

section \<open>Traces\<close>

text \<open>One constructor for each format string the programs log, print or panic with.\<close>

datatype message =
    NDF_does_not_exist error
  | Failed_to_read_certificate error
  | Failed_to_download_NDF error
  | Failed_to_initialize_state error
  | Failed_to_load_state error
  | Failed_to_generate_reception_identity error
  | Failed_to_store_new_reception_identity error
  | Using_E2E_parameters E2EParams
  | Unable_to_Login error
  | Unable_to_read_dh_private_key error
  | Failed_to_start_network_follower error
  | Network_Status bool
  | Timeout_on_starting_network_follower
  | Failed_to_read_server_contact_file error
  | Failed_to_get_contact_data error
  | Recipient_contact contact
  | Failed_to_create_connection_object error
  | Connect_successfully_established contact
  | Could_not_register_message_listener error
  | Failed_to_send_message error
  | Message_sent nat "nat list" nat

datatype event =
    Call_initLog nat string
  | Call_Stat string
  | Call_ReadFile string
  | Call_DownloadAndVerifySignedNdfWithUrl string string
  | Call_NewCmix string string bytes string
  | Call_LoadCmix string bytes
  | Call_LoadReceptionIdentity string Cmix
  | Call_MakeReceptionIdentity Cmix
  | Call_StoreReceptionIdentity string ReceptionIdentity Cmix
  | Call_Login Cmix ReceptionIdentity
  | Call_writeContact string contact
  | Call_UnmarshalJSON "bytes option"
  | Call_NewServer nat nat nat Cmix
  | Call_StartNetworkFollower nat
  | Call_NewTimer nat
  | Call_AddHealthCallback
  | Received bool
  | Timer_expired
  | Call_Unmarshal "bytes option"
  | Call_Connect contact E2e
  | Call_RegisterListener handler MessageType string
  | Call_SendE2E handler MessageType bytes
  | INFO message
  | Printf message
  | FATAL message

text \<open>
  A run ends in a panic (\<open>jww.FATAL.Panicf\<close>), in the final \<open>select {}\<close>, which
  blocks for ever, or, when the list of \<open>select\<close> answers is used up, still inside the
  wait loop.
\<close>

datatype halt = Panicked message | Blocked_forever | Still_waiting

type_synonym 'a run = "event list \<times> (halt + 'a)"

definition ret :: "'a \<Rightarrow> 'a run" where
  "ret x = ([], Inr x)"

definition emit :: "event \<Rightarrow> unit run" where
  "emit ev = ([ev], Inr ())"

definition stop :: "halt \<Rightarrow> 'a run" where
  "stop h = ([], Inl h)"

definition Panicf :: "message \<Rightarrow> 'a run" where
  "Panicf m = ([FATAL m], Inl (Panicked m))"

definition bnd :: "'a run \<Rightarrow> ('a \<Rightarrow> 'b run) \<Rightarrow> 'b run" where
  "bnd m f =
     (case m of
        (tr, Inl h) \<Rightarrow> (tr, Inl h)
      | (tr, Inr x) \<Rightarrow> (case f x of (tr', r) \<Rightarrow> (tr @ tr', r)))"

definition trace :: "'a run \<Rightarrow> event list" where
  "trace m = fst m"

definition outcome :: "'a run \<Rightarrow> halt + 'a" where
  "outcome m = snd m"

section \<open>Configuration constants of both programs\<close>

definition contactFilePath :: string where
  "contactFilePath = ''restlikeServer.xxc''"

definition serverContactPath :: string where
  "serverContactPath = ''server-contact.json''"

definition statePath :: string where
  "statePath = ''statePath''"

definition statePass :: string where
  "statePass = ''password''"

definition ndfURL :: string where
  "ndfURL = ''https://elixxir-bins.s3.us-west-1.amazonaws.com/ndf/mainnet.json''"

definition certificatePath :: string where
  "certificatePath = ''../mainnet.crt''"

definition ndfPath :: string where
  "ndfPath = ''ndf.json''"

definition identityStorageKey :: string where
  "identityStorageKey = ''identityStorageKey''"

definition networkFollowerTimeout :: nat where
  "networkFollowerTimeout = 5"

definition waitTimeout :: nat where
  "waitTimeout = 30"

definition msgBody :: string where
  "msgBody = ''If this message is sent successfully, we'' @ [CHR 0x27] @
     ''ll have established first contact with aliens.''"

definition listener_name :: string where
  "listener_name = ''e2e Message Listener''"

section \<open>The stages shared by both programs\<close>

text \<open>
  Lines 41-60 and 207-225: read the local network definition, and when the slice read is
  nil, read the certificate and download.
\<close>

definition resolveNdf :: "env \<Rightarrow> bytes option run" where
  "resolveNdf e =
     bnd (emit (Call_ReadFile ndfPath)) (\<lambda>_.
     case ReadFile e ndfPath of (ndfJSON, err) \<Rightarrow>
     bnd (case err of Some x \<Rightarrow> emit (INFO (NDF_does_not_exist x)) | None \<Rightarrow> ret ()) (\<lambda>_.
     if ndfJSON = None then
       bnd (emit (Call_ReadFile certificatePath)) (\<lambda>_.
       case ReadFile e certificatePath of (cert, err) \<Rightarrow>
       (case err of
          Some x \<Rightarrow> Panicf (Failed_to_read_certificate x)
        | None \<Rightarrow>
            bnd (emit (Call_DownloadAndVerifySignedNdfWithUrl ndfURL (string_of cert))) (\<lambda>_.
            case DownloadAndVerifySignedNdfWithUrl e ndfURL (string_of cert) of
              (ndfJSON, err) \<Rightarrow>
              (case err of
                 Some x \<Rightarrow> Panicf (Failed_to_download_NDF x)
               | None \<Rightarrow> ret ndfJSON))))
     else ret ndfJSON))"

text \<open>Lines 39-67 and 205-232: initialise the state when \<open>os.Stat\<close> says it is absent.\<close>

definition initState :: "env \<Rightarrow> unit run" where
  "initState e =
     bnd (emit (Call_Stat statePath)) (\<lambda>_.
     if errors_Is_ErrNotExist (Stat e statePath) then
       bnd (resolveNdf e) (\<lambda>ndfJSON.
       bnd (emit (Call_NewCmix (string_of ndfJSON) statePath statePass [])) (\<lambda>_.
       case NewCmix e (string_of ndfJSON) statePath statePass [] of
         Some x \<Rightarrow> Panicf (Failed_to_initialize_state x)
       | None \<Rightarrow> ret ()))
     else ret ())"

text \<open>Lines 72-76 and 237-240.\<close>

definition loadState :: "env \<Rightarrow> Cmix run" where
  "loadState e =
     bnd (emit (Call_LoadCmix statePath statePass)) (\<lambda>_.
     case LoadCmix e statePath statePass GetDefaultCMixParams of
       Inl x \<Rightarrow> Panicf (Failed_to_load_state x)
     | Inr baseClient \<Rightarrow> ret baseClient)"

text \<open>Lines 79-91 and 243-255.\<close>

definition loadOrMakeIdentity :: "env \<Rightarrow> Cmix \<Rightarrow> ReceptionIdentity run" where
  "loadOrMakeIdentity e baseClient =
     bnd (emit (Call_LoadReceptionIdentity identityStorageKey baseClient)) (\<lambda>_.
     case LoadReceptionIdentity e identityStorageKey baseClient of
       Inr identity \<Rightarrow> ret identity
     | Inl _ \<Rightarrow>
         bnd (emit (Call_MakeReceptionIdentity baseClient)) (\<lambda>_.
         case MakeReceptionIdentity e baseClient of
           Inl x \<Rightarrow> Panicf (Failed_to_generate_reception_identity x)
         | Inr identity \<Rightarrow>
             bnd (emit (Call_StoreReceptionIdentity identityStorageKey identity baseClient)) (\<lambda>_.
             case StoreReceptionIdentity e identityStorageKey identity baseClient of
               Some x \<Rightarrow> Panicf (Failed_to_store_new_reception_identity x)
             | None \<Rightarrow> ret identity)))"

text \<open>Lines 96-102 and 259-264.\<close>

definition login :: "env \<Rightarrow> Cmix \<Rightarrow> ReceptionIdentity \<Rightarrow> E2e run" where
  "login e baseClient identity =
     bnd (emit (INFO (Using_E2E_parameters GetDefaultE2EParams))) (\<lambda>_.
     bnd (emit (Call_Login baseClient identity)) (\<lambda>_.
     case Login e baseClient identity GetDefaultE2EParams of
       Inl x \<Rightarrow> Panicf (Unable_to_Login x)
     | Inr e2eClient \<Rightarrow> ret e2eClient))"

text \<open>
  Lines 133-147 and 276-290. The loop \<open>for !isConnected\<close> with its \<open>select\<close>: the
  received value is assigned to \<open>isConnected\<close> and logged, the \<open>break\<close> leaves the
  \<open>select\<close> only, and the timer's case panics.
\<close>

fun waitLoop :: "bool \<Rightarrow> sel list \<Rightarrow> unit run" where
  "waitLoop True ss = ret ()"
| "waitLoop False [] = stop Still_waiting"
| "waitLoop False (Recv isConnected # ss) =
     bnd (emit (Received isConnected)) (\<lambda>_.
     bnd (emit (INFO (Network_Status isConnected))) (\<lambda>_.
     waitLoop isConnected ss))"
| "waitLoop False (TimerC # ss) =
     bnd (emit Timer_expired) (\<lambda>_.
     Panicf Timeout_on_starting_network_follower)"

definition waitUntilConnected :: "sel list \<Rightarrow> unit run" where
  "waitUntilConnected connected =
     bnd (emit (Call_NewTimer waitTimeout)) (\<lambda>_. waitLoop False connected)"

text \<open>
  Lines 150-158 and 293-300: the channel is made, the health callback that sends on it is
  registered, and the wait runs on what the channel delivers.
\<close>

definition awaitHealth :: "env \<Rightarrow> unit run" where
  "awaitHealth e =
     bnd (emit Call_AddHealthCallback) (\<lambda>_.
     waitUntilConnected (selects e))"

text \<open>
  Lines 17-102 and 187-264, the part both programs share: logging, state, identity, login.
\<close>

definition session :: "env \<Rightarrow> (Cmix \<times> ReceptionIdentity \<times> E2e) run" where
  "session e =
     bnd (emit (Call_initLog 1 ''client.log'')) (\<lambda>_.
     bnd (initState e) (\<lambda>_.
     bnd (loadState e) (\<lambda>baseClient.
     bnd (loadOrMakeIdentity e baseClient) (\<lambda>identity.
     bnd (login e baseClient identity) (\<lambda>e2eClient.
     ret (baseClient, identity, e2eClient))))))"

section \<open>The single-use server\<close>

text \<open>
  Lines 15-166. The identifier \<open>dhPrivateKey\<close> passed to \<open>single.NewServer\<close> is not
  declared in the file; it is a parameter here. \<open>initLog\<close> and \<open>writeContact\<close> are
  defined outside the file and appear as calls in the trace.
\<close>

definition main_server :: "nat \<Rightarrow> env \<Rightarrow> unit run" where
  "main_server dhPrivateKey e =
     bnd (session e) (\<lambda>(baseClient, identity, e2eClient).
     bnd (emit (Call_writeContact contactFilePath (GetContact identity))) (\<lambda>_.
     let receptionIdentity = GetReceptionIdentity e2eClient in
     bnd (emit (Call_UnmarshalJSON (DHKeyPrivate receptionIdentity))) (\<lambda>_.
     case UnmarshalJSON e (DHKeyPrivate receptionIdentity) of
       Some x \<Rightarrow> Panicf (Unable_to_read_dh_private_key x)
     | None \<Rightarrow>
     bnd (emit (Call_NewServer (ID receptionIdentity) dhPrivateKey
                  (GetGroup e2eClient) (GetCmix e2eClient))) (\<lambda>_.
     bnd (emit (Call_StartNetworkFollower networkFollowerTimeout)) (\<lambda>_.
     case StartNetworkFollower e networkFollowerTimeout of
       Some x \<Rightarrow> Panicf (Failed_to_start_network_follower x)
     | None \<Rightarrow>
     bnd (awaitHealth e) (\<lambda>_.
     stop Blocked_forever))))))"

text \<open>
  Modelled from the spec: \<open>writeContact\<close> is defined outside the file. The spec's
  produced artifact is "a serialized contact descriptor written to a well-known path", so
  the call stores the contact at the path, in a map from paths to the contact held there.
  Nothing in the file or in the spec lets the call fail, so in \<open>main_server\<close> it
  returns.
\<close>

definition writeContact :: "string \<Rightarrow> contact \<Rightarrow> (string \<rightharpoonup> contact) \<Rightarrow> (string \<rightharpoonup> contact)" where
  "writeContact path c files = files(path \<mapsto> c)"

text \<open>The contact files after a run with the given trace.\<close>

fun files_after :: "event list \<Rightarrow> (string \<rightharpoonup> contact) \<Rightarrow> (string \<rightharpoonup> contact)" where
  "files_after [] files = files"
| "files_after (Call_writeContact path c # tr) files = files_after tr (writeContact path c files)"
| "files_after (_ # tr) files = files_after tr files"

section \<open>The direct-channel sender\<close>

text \<open>Lines 305-344: what the sender does once the wait has returned.\<close>

definition connectAndSend :: "env \<Rightarrow> E2e \<Rightarrow> unit run" where
  "connectAndSend e e2eClient =
     bnd (emit (Call_ReadFile serverContactPath)) (\<lambda>_.
     case ReadFile e serverContactPath of (contactData, err) \<Rightarrow>
     (case err of
        Some x \<Rightarrow> Panicf (Failed_to_read_server_contact_file x)
      | None \<Rightarrow>
     bnd (emit (Call_Unmarshal contactData)) (\<lambda>_.
     case Unmarshal e contactData of
       Inl x \<Rightarrow> Panicf (Failed_to_get_contact_data x)
     | Inr recipientContact \<Rightarrow>
     bnd (emit (INFO (Recipient_contact recipientContact))) (\<lambda>_.
     bnd (emit (Call_Connect recipientContact e2eClient)) (\<lambda>_.
     case Connect e recipientContact e2eClient GetDefaultE2EParams of
       Inl x \<Rightarrow> Panicf (Failed_to_create_connection_object x)
     | Inr h \<Rightarrow>
     bnd (emit (INFO (Connect_successfully_established recipientContact))) (\<lambda>_.
     bnd (emit (Call_RegisterListener h NoType listener_name)) (\<lambda>_.
     case RegisterListener e h NoType listener_name of
       Some x \<Rightarrow> Panicf (Could_not_register_message_listener x)
     | None \<Rightarrow>
     bnd (emit (Call_SendE2E h XxMessage msgBody)) (\<lambda>_.
     case SendE2E e h XxMessage msgBody (Base GetDefaultE2EParams) of (s, err) \<Rightarrow>
     bnd (case err of Some x \<Rightarrow> emit (Printf (Failed_to_send_message x)) | None \<Rightarrow> ret ()) (\<lambda>_.
     emit (INFO (Message_sent (messageID s) (roundIDs s) (timeSent s))))))))))))"

text \<open>Lines 185-349.\<close>

definition main_sender :: "env \<Rightarrow> unit run" where
  "main_sender e =
     bnd (session e) (\<lambda>(baseClient, identity, e2eClient).
     bnd (emit (Call_StartNetworkFollower networkFollowerTimeout)) (\<lambda>_.
     bnd (case StartNetworkFollower e networkFollowerTimeout of
            Some x \<Rightarrow> emit (Printf (Failed_to_start_network_follower x))
          | None \<Rightarrow> ret ()) (\<lambda>_.
     bnd (awaitHealth e) (\<lambda>_.
     bnd (connectAndSend e e2eClient) (\<lambda>_.
     stop Blocked_forever)))))"

section \<open>Properties of traces\<close>

text \<open>The steps of the remote path of the resolver: the certificate read and the download.\<close>

fun is_remote_fetch :: "event \<Rightarrow> bool" where
  "is_remote_fetch (Call_ReadFile path) = (path = certificatePath)"
| "is_remote_fetch (Call_DownloadAndVerifySignedNdfWithUrl url cert) = True"
| "is_remote_fetch _ = False"

fun is_download :: "event \<Rightarrow> bool" where
  "is_download (Call_DownloadAndVerifySignedNdfWithUrl url cert) = True"
| "is_download _ = False"

fun is_NewCmix :: "event \<Rightarrow> bool" where
  "is_NewCmix (Call_NewCmix ndf path pass code) = True"
| "is_NewCmix _ = False"


fun is_SendE2E :: "event \<Rightarrow> bool" where
  "is_SendE2E (Call_SendE2E h t m) = True"
| "is_SendE2E _ = False"

fun is_FATAL :: "event \<Rightarrow> bool" where
  "is_FATAL (FATAL m) = True"
| "is_FATAL _ = False"

text \<open>The serving and sending steps: the server is made, the channel opened, the listener
  registered, the message sent.\<close>

fun is_action :: "event \<Rightarrow> bool" where
  "is_action (Call_NewServer i k g c) = True"
| "is_action (Call_Connect c e2e) = True"
| "is_action (Call_RegisterListener h t n) = True"
| "is_action (Call_SendE2E h t m) = True"
| "is_action _ = False"

text \<open>The follower's start and the steps of the wait.\<close>

fun is_connectivity :: "event \<Rightarrow> bool" where
  "is_connectivity (Call_StartNetworkFollower t) = True"
| "is_connectivity Call_AddHealthCallback = True"
| "is_connectivity (Call_NewTimer t) = True"
| "is_connectivity (Received b) = True"
| "is_connectivity Timer_expired = True"
| "is_connectivity _ = False"

text \<open>The number of times a run initialises the state.\<close>

definition initializations :: "event list \<Rightarrow> nat" where
  "initializations tr = length (filter is_NewCmix tr)"

text \<open>The part of a trace before \<open>true\<close> is first received from the channel.\<close>

definition before_connected :: "event list \<Rightarrow> event list" where
  "before_connected tr = takeWhile (\<lambda>ev. ev \<noteq> Received True) tr"

text \<open>The part of a trace from the start of the network follower on.\<close>

definition from_follower_start :: "event list \<Rightarrow> event list" where
  "from_follower_start tr =
     dropWhile (\<lambda>ev. ev \<noteq> Call_StartNetworkFollower networkFollowerTimeout) tr"

text \<open>
  What the sender prints right after the call that starts the network follower (lines
  270-273): the error, when there is one.
\<close>

definition follower_report :: "env \<Rightarrow> event list" where
  "follower_report e =
     (case StartNetworkFollower e networkFollowerTimeout of
        Some x \<Rightarrow> [Printf (Failed_to_start_network_follower x)]
      | None \<Rightarrow> [])"

section \<open>Some environments\<close>

text \<open>An identity, a logged-in client, and two results of \<open>SendE2E\<close>.\<close>

definition identity0 :: ReceptionIdentity where
  "identity0 = \<lparr>ID = 7, DHKeyPrivate = Some ''key'', GetContact = Contact 7\<rparr>"

definition e2e0 :: E2e where
  "e2e0 = \<lparr>GetReceptionIdentity = identity0, GetGroup = 2, GetCmix = Cmix 1\<rparr>"

definition sent0 :: sent where
  "sent0 = \<lparr>roundIDs = [], messageID = 0, timeSent = 0\<rparr>"

definition sent1 :: sent where
  "sent1 = \<lparr>roundIDs = [41, 42], messageID = 9, timeSent = 1000\<rparr>"

text \<open>
  State and identity are on disk, every call succeeds, and the channel delivers
  \<open>false\<close> and then \<open>true\<close>.
\<close>

definition env_ok :: env where
  "env_ok =
     \<lparr>Stat = (\<lambda>path. None),
      ReadFile = (\<lambda>path. (Some ''data'', None)),
      DownloadAndVerifySignedNdfWithUrl = (\<lambda>url cert. (Some ''ndf'', None)),
      NewCmix = (\<lambda>ndf path pass code. None),
      LoadCmix = (\<lambda>path pass params. Inr (Cmix 1)),
      LoadReceptionIdentity = (\<lambda>key c. Inr identity0),
      MakeReceptionIdentity = (\<lambda>c. Inr identity0),
      StoreReceptionIdentity = (\<lambda>key i c. None),
      Login = (\<lambda>c i params. Inr e2e0),
      UnmarshalJSON = (\<lambda>b. None),
      StartNetworkFollower = (\<lambda>t. None),
      selects = [Recv False, Recv True],
      Unmarshal = (\<lambda>b. Inr (Contact 8)),
      Connect = (\<lambda>c e2e params. Inr (Handler 3)),
      RegisterListener = (\<lambda>h t n. None),
      SendE2E = (\<lambda>h t m params. (sent1, None))\<rparr>"

text \<open>Nothing is on disk: no state, no local network definition, no stored identity.\<close>

definition env_fresh :: env where
  "env_fresh =
     env_ok\<lparr>Stat := (\<lambda>path. Some ErrNotExist),
       ReadFile := (\<lambda>path. if path = ndfPath then (None, Some ErrNotExist)
                             else (Some ''data'', None)),
       LoadReceptionIdentity := (\<lambda>key c. Inl (ErrOther ''no identity''))\<rparr>"

text \<open>No state on disk, the local network definition is.\<close>

definition env_cached :: env where
  "env_cached = env_ok\<lparr>Stat := (\<lambda>path. Some ErrNotExist)\<rparr>"

text \<open>Nothing on disk, the certificate neither.\<close>

definition env_no_cert :: env where
  "env_no_cert = env_fresh\<lparr>ReadFile := (\<lambda>path. (None, Some ErrNotExist))\<rparr>"

text \<open>Nothing on disk, and the download does not verify.\<close>

definition env_bad_signature :: env where
  "env_bad_signature =
     env_fresh\<lparr>DownloadAndVerifySignedNdfWithUrl :=
       (\<lambda>url cert. (None, Some (ErrOther ''signature'')))\<rparr>"


text \<open>
  All is well until \<open>SendE2E\<close>, which returns an error beside zero values.
\<close>

definition env_send_fails :: env where
  "env_send_fails = env_ok\<lparr>SendE2E := (\<lambda>h t m params. (sent0, Some (ErrOther ''send'')))\<rparr>"

text \<open>All is well but the network follower, which does not start.\<close>

definition env_follower_fails :: env where
  "env_follower_fails =
     env_ok\<lparr>StartNetworkFollower := (\<lambda>t. Some (ErrOther ''follower''))\<rparr>"

section \<open>Laws of the run combinators\<close>

lemma trace_bnd:
  "trace (bnd m f) =
     (case outcome m of Inl h \<Rightarrow> trace m | Inr x \<Rightarrow> trace m @ trace (f x))"
  by (auto simp: bnd_def trace_def outcome_def split: prod.splits sum.splits)

lemma outcome_bnd:
  "outcome (bnd m f) = (case outcome m of Inl h \<Rightarrow> Inl h | Inr x \<Rightarrow> outcome (f x))"
  by (auto simp: bnd_def trace_def outcome_def split: prod.splits sum.splits)

lemma bnd_emit: "bnd (emit ev) f = (ev # fst (f ()), snd (f ()))"
  by (simp add: bnd_def emit_def split: prod.splits)

lemmas run_defs = bnd_def emit_def ret_def stop_def Panicf_def trace_def outcome_def

lemma trace_emit: "trace (emit ev) = [ev]" and outcome_emit: "outcome (emit ev) = Inr ()"
  and trace_ret: "trace (ret x) = []" and outcome_ret: "outcome (ret x) = Inr x"
  and trace_stop: "trace (stop h) = []" and outcome_stop: "outcome (stop h) = Inl h"
  and trace_Panicf: "trace (Panicf m) = [FATAL m]" and outcome_Panicf: "outcome (Panicf m) = Inl (Panicked m)"
  by (simp_all add: run_defs)

lemmas run_simps = trace_bnd outcome_bnd trace_emit outcome_emit trace_ret outcome_ret
  trace_stop outcome_stop trace_Panicf outcome_Panicf

lemmas path_defs = ndfPath_def certificatePath_def serverContactPath_def statePath_def contactFilePath_def

lemmas stage_defs = session_def initState_def resolveNdf_def loadState_def
  loadOrMakeIdentity_def login_def awaitHealth_def waitUntilConnected_def
  errors_Is_ErrNotExist_def string_of_def

lemma bnd_halt: "outcome m = Inl h \<Longrightarrow> bnd m f = (trace m, Inl h)"
  by (auto simp: run_defs split: prod.splits)

lemma take3_bnd:
  "take 3 (trace m) = [a, b, c] \<Longrightarrow> take 3 (trace (bnd m f)) = [a, b, c]"
  by (cases "outcome m") (auto simp: trace_bnd take_Suc_conv_app_nth dest: arg_cong [where f = length])

section \<open>The wait loop\<close>

lemma waitLoop_falses:
  "waitLoop False (map Recv (replicate n False) @ ss) =
     (concat (replicate n [Received False, INFO (Network_Status False)]) @
        fst (waitLoop False ss),
      snd (waitLoop False ss))"
  by (induction n) (simp_all add: bnd_emit)

lemma waitLoop_no_remote: "filter is_remote_fetch (trace (waitLoop b ss)) = []"
  by (induction b ss rule: waitLoop.induct) (simp_all add: run_simps)

lemma waitLoop_no_NewCmix: "filter is_NewCmix (trace (waitLoop b ss)) = []"
  by (induction b ss rule: waitLoop.induct) (simp_all add: run_simps)

lemma waitLoop_no_FATAL:
  "outcome (waitLoop b ss) = Inr u \<Longrightarrow> filter is_FATAL (trace (waitLoop b ss)) = []"
  by (induction b ss rule: waitLoop.induct) (simp_all add: run_simps)

lemma waitLoop_no_SendE2E: "filter is_SendE2E (trace (waitLoop b ss)) = []"
  by (induction b ss rule: waitLoop.induct) (simp_all add: run_simps)

lemma waitLoop_no_action: "filter is_action (trace (waitLoop b ss)) = []"
  by (induction b ss rule: waitLoop.induct) (simp_all add: run_simps)

lemma waitLoop_returns_after_true:
  "outcome (waitLoop b ss) = Inr u \<Longrightarrow> b \<or> Received True \<in> set (trace (waitLoop b ss))"
  by (induction b ss rule: waitLoop.induct) (auto simp: run_simps split: sum.splits)

lemma files_after_append:
  "files_after (xs @ ys) files = files_after ys (files_after xs files)"
  by (induction xs files rule: files_after.induct) simp_all

lemma files_after_waitLoop: "files_after (trace (waitLoop b ss)) files = files"
  by (induction b ss rule: waitLoop.induct) (simp_all add: run_simps)

lemma awaitHealth_no_remote: "filter is_remote_fetch (trace (awaitHealth e)) = []"
  by (simp add: awaitHealth_def waitUntilConnected_def run_simps waitLoop_no_remote split: sum.splits)

lemma awaitHealth_no_NewCmix: "filter is_NewCmix (trace (awaitHealth e)) = []"
  by (simp add: awaitHealth_def waitUntilConnected_def run_simps waitLoop_no_NewCmix split: sum.splits)

lemma awaitHealth_no_FATAL:
  "outcome (awaitHealth e) = Inr u \<Longrightarrow> filter is_FATAL (trace (awaitHealth e)) = []"
  by (simp add: awaitHealth_def waitUntilConnected_def run_simps waitLoop_no_FATAL)

lemma awaitHealth_no_SendE2E: "filter is_SendE2E (trace (awaitHealth e)) = []"
  by (simp add: awaitHealth_def waitUntilConnected_def run_simps waitLoop_no_SendE2E)

lemma awaitHealth_no_action: "filter is_action (trace (awaitHealth e)) = []"
  by (simp add: awaitHealth_def waitUntilConnected_def run_simps waitLoop_no_action)

lemma awaitHealth_returns_after_true:
  "outcome (awaitHealth e) = Inr u \<Longrightarrow> Received True \<in> set (trace (awaitHealth e))"
  using waitLoop_returns_after_true [of False "selects e"]
  by (auto simp: awaitHealth_def waitUntilConnected_def run_simps split: sum.splits)

lemma files_after_awaitHealth: "files_after (trace (awaitHealth e)) files = files"
  by (simp add: awaitHealth_def waitUntilConnected_def run_simps files_after_waitLoop)

section \<open>The resolver and the state\<close>

lemma resolveNdf_local:
  "fst (ReadFile e ndfPath) = Some bs \<Longrightarrow>
     outcome (resolveNdf e) = Inr (Some bs) \<and> filter is_remote_fetch (trace (resolveNdf e)) = []"
  by (auto simp: resolveNdf_def run_simps path_defs split: prod.splits option.splits)

lemma resolveNdf_no_NewCmix: "filter is_NewCmix (trace (resolveNdf e)) = []"
  by (auto simp: resolveNdf_def run_simps split: prod.splits option.splits sum.splits)

lemma resolveNdf_no_cert:
  "fst (ReadFile e ndfPath) = None \<Longrightarrow> snd (ReadFile e certificatePath) = Some x \<Longrightarrow>
     outcome (resolveNdf e) = Inl (Panicked (Failed_to_read_certificate x))
     \<and> filter is_download (trace (resolveNdf e)) = []"
  by (auto simp: resolveNdf_def run_simps split: prod.splits option.splits)

lemma resolveNdf_download_fails:
  "fst (ReadFile e ndfPath) = None \<Longrightarrow> snd (ReadFile e certificatePath) = None \<Longrightarrow>
   snd (DownloadAndVerifySignedNdfWithUrl e ndfURL (string_of (fst (ReadFile e certificatePath))))
     = Some y \<Longrightarrow>
     outcome (resolveNdf e) = Inl (Panicked (Failed_to_download_NDF y))
     \<and> filter is_download (trace (resolveNdf e)) =
         [Call_DownloadAndVerifySignedNdfWithUrl ndfURL
            (string_of (fst (ReadFile e certificatePath)))]"
  by (auto simp: resolveNdf_def run_simps split: prod.splits option.splits)

lemma resolveNdf_no_FATAL:
  "outcome (resolveNdf e) = Inr r \<Longrightarrow> filter is_FATAL (trace (resolveNdf e)) = []"
  by (auto simp: resolveNdf_def run_simps split: prod.splits option.splits if_splits)

lemma initState_local:
  "fst (ReadFile e ndfPath) = Some bs \<Longrightarrow> filter is_remote_fetch (trace (initState e)) = []"
  by (auto simp: initState_def run_simps resolveNdf_local split: prod.splits option.splits sum.splits)

lemma initState_local_NewCmix:
  "errors_Is_ErrNotExist (Stat e statePath) \<Longrightarrow> fst (ReadFile e ndfPath) = Some bs \<Longrightarrow>
     filter is_NewCmix (trace (initState e)) = [Call_NewCmix bs statePath statePass []]"
  by (auto simp: initState_def resolveNdf_def string_of_def run_simps split: prod.splits option.splits sum.splits)

lemma initState_count:
  "length (filter is_NewCmix (trace (initState e))) =
     (if errors_Is_ErrNotExist (Stat e statePath) \<and> \<not> isl (outcome (resolveNdf e)) then 1 else 0)"
  by (auto simp: initState_def run_simps resolveNdf_no_NewCmix split: prod.splits option.splits sum.splits)

lemma initState_present:
  "\<not> errors_Is_ErrNotExist (Stat e statePath) \<Longrightarrow> initState e = ([Call_Stat statePath], Inr ())"
  by (simp add: initState_def run_defs)


lemma initState_halts:
  "errors_Is_ErrNotExist (Stat e statePath) \<Longrightarrow> outcome (resolveNdf e) = Inl h \<Longrightarrow>
     outcome (initState e) = Inl h"
  by (simp add: initState_def run_simps)

lemma initState_remote_NewCmix:
  "fst (ReadFile e ndfPath) = None \<Longrightarrow> filter is_NewCmix (trace (initState e)) \<noteq> [] \<Longrightarrow>
     snd (ReadFile e certificatePath) = None
   \<and> snd (DownloadAndVerifySignedNdfWithUrl e ndfURL
            (string_of (fst (ReadFile e certificatePath)))) = None
   \<and> filter is_NewCmix (trace (initState e)) =
       [Call_NewCmix
          (string_of (fst (DownloadAndVerifySignedNdfWithUrl e ndfURL
             (string_of (fst (ReadFile e certificatePath))))))
          statePath statePass []]"
  by (auto simp: initState_def resolveNdf_def run_simps split: prod.splits option.splits sum.splits if_splits)

lemma initState_no_FATAL:
  "outcome (initState e) = Inr r \<Longrightarrow> filter is_FATAL (trace (initState e)) = []"
  by (auto simp: initState_def run_simps resolveNdf_no_FATAL split: option.splits sum.splits if_splits)

lemma initState_no_SendE2E: "filter is_SendE2E (trace (initState e)) = []"
  by (auto simp: initState_def resolveNdf_def run_simps split: prod.splits option.splits sum.splits)

lemma files_after_initState: "files_after (trace (initState e)) files = files"
  by (auto simp: initState_def resolveNdf_def run_simps split: prod.splits option.splits sum.splits)

lemma initState_no_connectivity: "filter is_connectivity (trace (initState e)) = []"
  by (auto simp: initState_def resolveNdf_def run_simps split: prod.splits option.splits sum.splits)

lemma initState_no_action: "filter is_action (trace (initState e)) = []"
  by (auto simp: initState_def resolveNdf_def run_simps split: prod.splits option.splits sum.splits)

section \<open>The session\<close>

lemma loadState_no_FATAL:
  "outcome (loadState e) = Inr r \<Longrightarrow> filter is_FATAL (trace (loadState e)) = []"
  by (auto simp: loadState_def run_simps split: sum.splits)

lemma loadOrMakeIdentity_no_FATAL:
  "outcome (loadOrMakeIdentity e c) = Inr r \<Longrightarrow>
     filter is_FATAL (trace (loadOrMakeIdentity e c)) = []"
  by (auto simp: loadOrMakeIdentity_def run_simps split: sum.splits option.splits)

lemma login_no_FATAL:
  "outcome (login e c i) = Inr r \<Longrightarrow> filter is_FATAL (trace (login e c i)) = []"
  by (auto simp: login_def run_simps split: sum.splits)

lemma session_local:
  "fst (ReadFile e ndfPath) = Some bs \<Longrightarrow> filter is_remote_fetch (trace (session e)) = []"
  by (auto simp: session_def loadState_def loadOrMakeIdentity_def login_def run_simps initState_local split: prod.splits option.splits sum.splits)

lemma session_NewCmix:
  "filter is_NewCmix (trace (session e)) = filter is_NewCmix (trace (initState e))"
  by (auto simp: session_def loadState_def loadOrMakeIdentity_def login_def run_simps split: prod.splits option.splits sum.splits)

lemma session_present:
  "\<not> errors_Is_ErrNotExist (Stat e statePath) \<Longrightarrow>
   take 3 (trace (session e)) =
     [Call_initLog 1 ''client.log'', Call_Stat statePath, Call_LoadCmix statePath statePass]"
  by (auto simp: session_def initState_present loadState_def loadOrMakeIdentity_def login_def run_defs split: prod.splits option.splits sum.splits)


lemma session_halts: "outcome (initState e) = Inl h \<Longrightarrow> outcome (session e) = Inl h"
  by (simp add: session_def run_simps)

lemma session_no_FATAL:
  "outcome (session e) = Inr r \<Longrightarrow> filter is_FATAL (trace (session e)) = []"
  by (auto simp: session_def run_simps initState_no_FATAL loadState_no_FATAL
      loadOrMakeIdentity_no_FATAL login_no_FATAL split: sum.splits)

lemma session_no_SendE2E: "filter is_SendE2E (trace (session e)) = []"
  by (auto simp: session_def loadState_def loadOrMakeIdentity_def
      login_def run_simps initState_no_SendE2E split: prod.splits option.splits sum.splits)

lemma files_after_session: "files_after (trace (session e)) files = files"
  by (auto simp: session_def loadState_def loadOrMakeIdentity_def login_def run_simps
      files_after_append files_after_initState split: prod.splits option.splits sum.splits)

lemma session_no_connectivity: "filter is_connectivity (trace (session e)) = []"
  by (auto simp: session_def loadState_def loadOrMakeIdentity_def login_def run_simps
      initState_no_connectivity split: prod.splits option.splits sum.splits)

lemma session_last_Login:
  "outcome (session e) = Inr (c, i, c2) \<Longrightarrow> last (trace (session e)) = Call_Login c i"
  by (auto simp: session_def login_def loadState_def run_simps split: sum.splits)

lemma session_no_action: "filter is_action (trace (session e)) = []"
  by (auto simp: session_def loadState_def loadOrMakeIdentity_def login_def run_simps
      initState_no_action split: prod.splits option.splits sum.splits)

lemma session_not_follower_start:
  "ev \<in> set (trace (session e)) \<Longrightarrow> ev \<noteq> Call_StartNetworkFollower t"
  using session_no_connectivity [of e] unfolding filter_empty_conv by auto

lemma from_follower_start_session: "from_follower_start (trace (session e) @ ys) = from_follower_start ys"
  unfolding from_follower_start_def
  by (rule dropWhile_append2) (simp add: session_not_follower_start)

lemma session_env_ok: "session env_ok =
  ([Call_initLog 1 ''client.log'', Call_Stat statePath, Call_LoadCmix statePath statePass,
    Call_LoadReceptionIdentity identityStorageKey (Cmix 1),
    INFO (Using_E2E_parameters GetDefaultE2EParams), Call_Login (Cmix 1) identity0],
   Inr (Cmix 1, identity0, e2e0))"
  by (simp add: stage_defs env_ok_def run_defs)

lemma session_env_send_fails:
  "outcome (session env_send_fails) = Inr (Cmix 1, identity0, e2e0)"
  by (simp add: stage_defs env_send_fails_def env_ok_def run_defs)

lemma awaitHealth_env_send_fails: "outcome (awaitHealth env_send_fails) = Inr ()"
  by (simp add: stage_defs env_send_fails_def env_ok_def run_defs)

section \<open>The two programs\<close>

lemma connectAndSend_no_remote: "filter is_remote_fetch (trace (connectAndSend e c)) = []"
  by (auto simp: connectAndSend_def run_simps path_defs split: prod.splits option.splits sum.splits)

lemma connectAndSend_no_NewCmix: "filter is_NewCmix (trace (connectAndSend e c)) = []"
  by (auto simp: connectAndSend_def run_simps split: prod.splits option.splits sum.splits)

lemma connectAndSend_send_fails:
  "ReadFile e serverContactPath = (d, None) \<Longrightarrow> Unmarshal e d = Inr rc \<Longrightarrow>
   Connect e rc c2 GetDefaultE2EParams = Inr h \<Longrightarrow>
   RegisterListener e h NoType listener_name = None \<Longrightarrow>
   SendE2E e h XxMessage msgBody (Base GetDefaultE2EParams) = (s, Some x) \<Longrightarrow>
   connectAndSend e c2 =
     ([Call_ReadFile serverContactPath, Call_Unmarshal d, INFO (Recipient_contact rc),
       Call_Connect rc c2, INFO (Connect_successfully_established rc),
       Call_RegisterListener h NoType listener_name, Call_SendE2E h XxMessage msgBody,
       Printf (Failed_to_send_message x),
       INFO (Message_sent (messageID s) (roundIDs s) (timeSent s))], Inr ())"
  by (simp add: connectAndSend_def run_defs)

lemma follower_report_simps:
  "filter is_FATAL (follower_report e) = []" "filter is_SendE2E (follower_report e) = []"
  by (simp_all add: follower_report_def split: option.splits)

lemma follower_report_no_action: "filter is_action (follower_report e) = []"
  by (simp add: follower_report_def split: option.splits)

lemma main_server_local:
  "fst (ReadFile e ndfPath) = Some bs \<Longrightarrow> filter is_remote_fetch (trace (main_server k e)) = []"
  by (auto simp: main_server_def Let_def run_simps session_local awaitHealth_no_remote split: prod.splits option.splits sum.splits)

lemma main_sender_local:
  "fst (ReadFile e ndfPath) = Some bs \<Longrightarrow> filter is_remote_fetch (trace (main_sender e)) = []"
  by (auto simp: main_sender_def Let_def run_simps session_local awaitHealth_no_remote connectAndSend_no_remote split: prod.splits option.splits sum.splits)

lemma main_server_NewCmix:
  "filter is_NewCmix (trace (main_server k e)) = filter is_NewCmix (trace (initState e))"
  by (auto simp: main_server_def Let_def run_simps session_NewCmix awaitHealth_no_NewCmix split: prod.splits option.splits sum.splits)

lemma main_sender_NewCmix:
  "filter is_NewCmix (trace (main_sender e)) = filter is_NewCmix (trace (initState e))"
  by (auto simp: main_sender_def Let_def run_simps session_NewCmix awaitHealth_no_NewCmix connectAndSend_no_NewCmix split: prod.splits option.splits sum.splits)

lemma main_server_present:
  "\<not> errors_Is_ErrNotExist (Stat e statePath) \<Longrightarrow>
   take 3 (trace (main_server k e)) =
     [Call_initLog 1 ''client.log'', Call_Stat statePath, Call_LoadCmix statePath statePass]"
  by (simp add: main_server_def take3_bnd session_present)

lemma main_sender_present:
  "\<not> errors_Is_ErrNotExist (Stat e statePath) \<Longrightarrow>
   take 3 (trace (main_sender e)) =
     [Call_initLog 1 ''client.log'', Call_Stat statePath, Call_LoadCmix statePath statePass]"
  by (simp add: main_sender_def take3_bnd session_present)

lemma initializations_append:
  "initializations (xs @ ys) = initializations xs + initializations ys"
  by (simp add: initializations_def)

lemma main_server_inits:
  "initializations (trace (main_server k e)) =
     (if errors_Is_ErrNotExist (Stat e statePath) \<and> \<not> isl (outcome (resolveNdf e)) then 1 else 0)"
  by (simp add: initializations_def main_server_NewCmix initState_count)

lemma main_sender_inits:
  "initializations (trace (main_sender e)) =
     (if errors_Is_ErrNotExist (Stat e statePath) \<and> \<not> isl (outcome (resolveNdf e)) then 1 else 0)"
  by (simp add: initializations_def main_sender_NewCmix initState_count)

lemma main_server_halts: "outcome (session e) = Inl h \<Longrightarrow> outcome (main_server k e) = Inl h"
  by (simp add: main_server_def outcome_bnd)

lemma main_sender_halts: "outcome (session e) = Inl h \<Longrightarrow> outcome (main_sender e) = Inl h"
  by (simp add: main_sender_def outcome_bnd)

lemma main_sender_run:
  "outcome (session e) = Inr (c, i, c2) \<Longrightarrow>
   trace (main_sender e) =
     (trace (session e) @ Call_StartNetworkFollower networkFollowerTimeout #
        follower_report e @ trace (awaitHealth e)) @
     (case outcome (awaitHealth e) of Inl h \<Rightarrow> [] | Inr u \<Rightarrow> trace (connectAndSend e c2))
   \<and> outcome (main_sender e) =
     (case outcome (awaitHealth e) of
        Inl h \<Rightarrow> Inl h
      | Inr u \<Rightarrow> (case outcome (connectAndSend e c2) of
                    Inl h \<Rightarrow> Inl h | Inr u \<Rightarrow> Inl Blocked_forever))"
  by (auto simp: main_sender_def follower_report_def run_simps split: sum.splits option.splits)

lemma main_server_run:
  "outcome (session e) = Inr (c, i, c2) \<Longrightarrow>
   trace (main_server k e) =
     trace (session e) @ Call_writeContact contactFilePath (GetContact i) #
       Call_UnmarshalJSON (DHKeyPrivate (GetReceptionIdentity c2)) #
       (case UnmarshalJSON e (DHKeyPrivate (GetReceptionIdentity c2)) of
          Some x \<Rightarrow> [FATAL (Unable_to_read_dh_private_key x)]
        | None \<Rightarrow>
            Call_NewServer (ID (GetReceptionIdentity c2)) k (GetGroup c2) (GetCmix c2) #
            Call_StartNetworkFollower networkFollowerTimeout #
            (case StartNetworkFollower e networkFollowerTimeout of
               Some x \<Rightarrow> [FATAL (Failed_to_start_network_follower x)]
             | None \<Rightarrow> trace (awaitHealth e)))"
  by (auto simp: main_server_def Let_def run_simps split: sum.splits option.splits)

lemma main_server_outcome:
  "outcome (session e) = Inr (c, i, c2) \<Longrightarrow>
   outcome (main_server k e) =
     (case UnmarshalJSON e (DHKeyPrivate (GetReceptionIdentity c2)) of
        Some x \<Rightarrow> Inl (Panicked (Unable_to_read_dh_private_key x))
      | None \<Rightarrow>
          (case StartNetworkFollower e networkFollowerTimeout of
             Some y \<Rightarrow> Inl (Panicked (Failed_to_start_network_follower y))
           | None \<Rightarrow>
               (case outcome (awaitHealth e) of
                  Inl h \<Rightarrow> Inl h
                | Inr u \<Rightarrow> Inl Blocked_forever)))"
  by (auto simp: main_server_def Let_def run_simps split: sum.splits option.splits)

lemma main_server_never_returns: "isl (outcome (main_server k e))"
proof (cases "outcome (session e)")
  case (Inl h)
  then show ?thesis by (simp add: main_server_halts)
next
  case (Inr r)
  obtain c i c2 where "r = (c, i, c2)" by (cases r)
  with Inr show ?thesis
    by (simp add: main_server_outcome split: option.splits sum.splits)
qed

lemma main_server_stops_with_session:
  "outcome (session e) = Inl h \<Longrightarrow> main_server k e = (trace (session e), Inl h)"
  by (simp add: main_server_def bnd_halt)

lemma awaitHealth_env_ok:
  "awaitHealth env_ok =
     ([Call_AddHealthCallback, Call_NewTimer waitTimeout, Received False,
       INFO (Network_Status False), Received True, INFO (Network_Status True)], Inr ())"
  by (simp add: awaitHealth_def waitUntilConnected_def env_ok_def run_defs)

lemma before_connected_append:
  "Received True \<in> set xs \<Longrightarrow> before_connected (xs @ ys) = before_connected xs"
  unfolding before_connected_def by (rule takeWhile_append1) auto

lemma no_action_before_connected:
  "filter is_action xs = [] \<Longrightarrow> filter is_action (before_connected xs) = []"
  unfolding before_connected_def filter_empty_conv by (blast dest: set_takeWhileD)

lemma main_sender_gated: "filter is_action (before_connected (trace (main_sender e))) = []"
proof (cases "outcome (session e)")
  case (Inl h)
  then show ?thesis
    by (simp add: main_sender_def bnd_halt no_action_before_connected session_no_action
        trace_def [of "(x, y)" for x y])
next
  case (Inr r)
  obtain c i c2 where r: "r = (c, i, c2)" by (cases r)
  note run = main_sender_run [OF Inr [unfolded r], THEN conjunct1]
  let ?pre = "trace (session e) @ Call_StartNetworkFollower networkFollowerTimeout #
        follower_report e @ trace (awaitHealth e)"
  have pre: "filter is_action ?pre = []"
    by (simp add: session_no_action follower_report_no_action awaitHealth_no_action)
  show ?thesis
  proof (cases "outcome (awaitHealth e)")
    case (Inl h)
    with run pre show ?thesis by (simp add: no_action_before_connected)
  next
    case (Inr u)
    then have "Received True \<in> set ?pre"
      by (simp add: awaitHealth_returns_after_true)
    then have "before_connected (?pre @ trace (connectAndSend e c2)) = before_connected ?pre"
      by (rule before_connected_append)
    with run Inr show ?thesis
      using no_action_before_connected [OF pre] by simp
  qed
qed

lemma main_server_after_follower:
  "filter is_action (from_follower_start (trace (main_server k e))) = []"
proof (cases "outcome (session e)")
  case (Inl h)
  have "from_follower_start (trace (session e) @ []) = []"
    unfolding from_follower_start_session by (simp add: from_follower_start_def)
  with Inl show ?thesis
    by (simp add: main_server_def bnd_halt trace_def [of "(x, y)" for x y])
next
  case (Inr r)
  obtain c i c2 where r: "r = (c, i, c2)" by (cases r)
  show ?thesis
    unfolding main_server_run [OF Inr [unfolded r]] from_follower_start_session
    by (simp add: from_follower_start_def awaitHealth_no_action split: option.splits)
qed

lemma main_server_actions:
  "outcome (session e) = Inr (c, i, c2) \<Longrightarrow>
   UnmarshalJSON e (DHKeyPrivate (GetReceptionIdentity c2)) = None \<Longrightarrow>
   filter is_action (trace (main_server k e)) =
     [Call_NewServer (ID (GetReceptionIdentity c2)) k (GetGroup c2) (GetCmix c2)]"
  by (simp add: main_server_run session_no_action awaitHealth_no_action split: option.splits)

section \<open>The wait returns at the first true\<close>

text \<open>
  C1. Whatever number \<open>n\<close> of \<open>false\<close> values the channel delivers first, the wait
  receives and logs each of them and goes on; at the first \<open>true\<close> it logs it and
  returns, without looking at what follows (\<open>rest\<close>, which may hold the timer). After
  \<open>false\<close> values only, the wait has neither returned nor panicked. In particular
  \<open>false\<close> then \<open>true\<close> returns.
\<close>

theorem wait_returns_at_first_true:
  "waitUntilConnected (map Recv (replicate n False) @ Recv True # rest) =
     (Call_NewTimer waitTimeout #
        concat (replicate n [Received False, INFO (Network_Status False)]) @
        [Received True, INFO (Network_Status True)], Inr ())
   \<and> waitUntilConnected (map Recv (replicate n False)) =
     (Call_NewTimer waitTimeout #
        concat (replicate n [Received False, INFO (Network_Status False)]),
      Inl Still_waiting)
   \<and> waitUntilConnected [Recv False, Recv True] =
     ([Call_NewTimer waitTimeout, Received False, INFO (Network_Status False),
       Received True, INFO (Network_Status True)], Inr ())"
proof (intro conjI)
  show "waitUntilConnected (map Recv (replicate n False) @ Recv True # rest) =
     (Call_NewTimer waitTimeout #
        concat (replicate n [Received False, INFO (Network_Status False)]) @
        [Received True, INFO (Network_Status True)], Inr ())"
    using waitLoop_falses [of n "Recv True # rest"]
    by (simp add: waitUntilConnected_def bnd_emit ret_def)
  show "waitUntilConnected (map Recv (replicate n False)) =
     (Call_NewTimer waitTimeout #
        concat (replicate n [Received False, INFO (Network_Status False)]),
      Inl Still_waiting)"
    using waitLoop_falses [of n "[]"]
    by (simp add: waitUntilConnected_def bnd_emit stop_def)
  show "waitUntilConnected [Recv False, Recv True] =
     ([Call_NewTimer waitTimeout, Received False, INFO (Network_Status False),
       Received True, INFO (Network_Status True)], Inr ())"
    by (simp add: waitUntilConnected_def bnd_emit ret_def)
qed

section \<open>Serving and sending against the wait\<close>

text \<open>
  C2, as the code has it. In the sender no serving or sending step (\<open>is_action\<close>)
  happens before \<open>true\<close> has been received from the channel. In the server no such step
  happens from the start of the network follower on, and \<open>main\<close> never returns. A run
  of the server that has logged in goes on with exactly these steps: \<open>writeContact\<close>,
  the decoding of the private key, and when that succeeds \<open>single.NewServer\<close>, then the
  start of the network follower, and when that succeeds the wait. So
  \<open>single.NewServer\<close> comes after the decoding and before the follower is started, it
  is the only serving step of the run, nothing follows the wait in the trace, and a wait
  that returns leaves the server in the final \<open>select {}\<close>. A run that does not log
  in stops with the session stage, which has no serving or sending step, as the wait has
  none.
\<close>

theorem sender_acts_after_gate_server_before_follower:
  "filter is_action (before_connected (trace (main_sender e))) = []
   \<and> filter is_action (from_follower_start (trace (main_server k e))) = []
   \<and> (outcome (session e) = Inr (c, i, c2) \<and>
      UnmarshalJSON e (DHKeyPrivate (GetReceptionIdentity c2)) = None \<longrightarrow>
        filter is_action (trace (main_server k e)) =
          [Call_NewServer (ID (GetReceptionIdentity c2)) k (GetGroup c2) (GetCmix c2)])
   \<and> isl (outcome (main_server k e))
   \<and> filter is_action (trace (session e)) = []
   \<and> filter is_action (trace (awaitHealth e)) = []
   \<and> (outcome (session e) = Inl h \<longrightarrow> main_server k e = (trace (session e), Inl h))
   \<and> (outcome (session e) = Inr (c, i, c2) \<longrightarrow>
        trace (main_server k e) =
          trace (session e) @ Call_writeContact contactFilePath (GetContact i) #
            Call_UnmarshalJSON (DHKeyPrivate (GetReceptionIdentity c2)) #
            (case UnmarshalJSON e (DHKeyPrivate (GetReceptionIdentity c2)) of
               Some x \<Rightarrow> [FATAL (Unable_to_read_dh_private_key x)]
             | None \<Rightarrow>
                 Call_NewServer (ID (GetReceptionIdentity c2)) k (GetGroup c2) (GetCmix c2) #
                 Call_StartNetworkFollower networkFollowerTimeout #
                 (case StartNetworkFollower e networkFollowerTimeout of
                    Some y \<Rightarrow> [FATAL (Failed_to_start_network_follower y)]
                  | None \<Rightarrow> trace (awaitHealth e)))
      \<and> outcome (main_server k e) =
          (case UnmarshalJSON e (DHKeyPrivate (GetReceptionIdentity c2)) of
             Some x \<Rightarrow> Inl (Panicked (Unable_to_read_dh_private_key x))
           | None \<Rightarrow>
               (case StartNetworkFollower e networkFollowerTimeout of
                  Some y \<Rightarrow> Inl (Panicked (Failed_to_start_network_follower y))
                | None \<Rightarrow>
                    (case outcome (awaitHealth e) of
                       Inl h \<Rightarrow> Inl h
                     | Inr u \<Rightarrow> Inl Blocked_forever))))
   \<and> (outcome (session e) = Inr (c, i, c2) \<and>
      UnmarshalJSON e (DHKeyPrivate (GetReceptionIdentity c2)) = None \<and>
      StartNetworkFollower e networkFollowerTimeout = None \<and>
      outcome (awaitHealth e) = Inr () \<longrightarrow>
        trace (main_server k e) =
          trace (session e) @
          [Call_writeContact contactFilePath (GetContact i),
           Call_UnmarshalJSON (DHKeyPrivate (GetReceptionIdentity c2)),
           Call_NewServer (ID (GetReceptionIdentity c2)) k (GetGroup c2) (GetCmix c2),
           Call_StartNetworkFollower networkFollowerTimeout] @
          trace (awaitHealth e)
      \<and> outcome (main_server k e) = Inl Blocked_forever)"
proof (intro conjI impI)
  show "filter is_action (before_connected (trace (main_sender e))) = []"
    by (rule main_sender_gated)
  show "filter is_action (from_follower_start (trace (main_server k e))) = []"
    by (rule main_server_after_follower)
  show "isl (outcome (main_server k e))"
    by (rule main_server_never_returns)
  show "filter is_action (trace (session e)) = []"
    by (rule session_no_action)
  show "filter is_action (trace (awaitHealth e)) = []"
    by (rule awaitHealth_no_action)
next
  assume "outcome (session e) = Inr (c, i, c2) \<and>
      UnmarshalJSON e (DHKeyPrivate (GetReceptionIdentity c2)) = None"
  then show "filter is_action (trace (main_server k e)) =
          [Call_NewServer (ID (GetReceptionIdentity c2)) k (GetGroup c2) (GetCmix c2)]"
    by (simp add: main_server_actions)
next
  assume "outcome (session e) = Inl h"
  then show "main_server k e = (trace (session e), Inl h)"
    by (rule main_server_stops_with_session)
next
  assume a: "outcome (session e) = Inr (c, i, c2)"
  show "trace (main_server k e) =
          trace (session e) @ Call_writeContact contactFilePath (GetContact i) #
            Call_UnmarshalJSON (DHKeyPrivate (GetReceptionIdentity c2)) #
            (case UnmarshalJSON e (DHKeyPrivate (GetReceptionIdentity c2)) of
               Some x \<Rightarrow> [FATAL (Unable_to_read_dh_private_key x)]
             | None \<Rightarrow>
                 Call_NewServer (ID (GetReceptionIdentity c2)) k (GetGroup c2) (GetCmix c2) #
                 Call_StartNetworkFollower networkFollowerTimeout #
                 (case StartNetworkFollower e networkFollowerTimeout of
                    Some y \<Rightarrow> [FATAL (Failed_to_start_network_follower y)]
                  | None \<Rightarrow> trace (awaitHealth e)))"
    by (rule main_server_run [OF a])
  show "outcome (main_server k e) =
          (case UnmarshalJSON e (DHKeyPrivate (GetReceptionIdentity c2)) of
             Some x \<Rightarrow> Inl (Panicked (Unable_to_read_dh_private_key x))
           | None \<Rightarrow>
               (case StartNetworkFollower e networkFollowerTimeout of
                  Some y \<Rightarrow> Inl (Panicked (Failed_to_start_network_follower y))
                | None \<Rightarrow>
                    (case outcome (awaitHealth e) of
                       Inl h \<Rightarrow> Inl h
                     | Inr u \<Rightarrow> Inl Blocked_forever)))"
    by (rule main_server_outcome [OF a])
next
  assume b: "outcome (session e) = Inr (c, i, c2) \<and>
      UnmarshalJSON e (DHKeyPrivate (GetReceptionIdentity c2)) = None \<and>
      StartNetworkFollower e networkFollowerTimeout = None \<and>
      outcome (awaitHealth e) = Inr ()"
  then have a: "outcome (session e) = Inr (c, i, c2)" by simp
  from b show "trace (main_server k e) =
          trace (session e) @
          [Call_writeContact contactFilePath (GetContact i),
           Call_UnmarshalJSON (DHKeyPrivate (GetReceptionIdentity c2)),
           Call_NewServer (ID (GetReceptionIdentity c2)) k (GetGroup c2) (GetCmix c2),
           Call_StartNetworkFollower networkFollowerTimeout] @
          trace (awaitHealth e)"
    by (simp add: main_server_run [OF a])
  from b show "outcome (main_server k e) = Inl Blocked_forever"
    by (simp add: main_server_outcome [OF a])
qed

text \<open>The run with state and identity on disk and every call succeeding.\<close>

theorem sender_acts_after_gate_server_before_follower_witness:
  "filter is_action (before_connected (trace (main_sender env_ok))) = []
   \<and> filter is_action (from_follower_start (trace (main_server 0 env_ok))) = []
   \<and> outcome (session env_ok) = Inr (Cmix 1, identity0, e2e0)
   \<and> UnmarshalJSON env_ok (DHKeyPrivate (GetReceptionIdentity e2e0)) = None
   \<and> StartNetworkFollower env_ok networkFollowerTimeout = None
   \<and> outcome (awaitHealth env_ok) = Inr ()
   \<and> filter is_action (trace (main_server 0 env_ok)) = [Call_NewServer 7 0 2 (Cmix 1)]
   \<and> trace (main_server 0 env_ok) =
       [Call_initLog 1 ''client.log'', Call_Stat statePath, Call_LoadCmix statePath statePass,
        Call_LoadReceptionIdentity identityStorageKey (Cmix 1),
        INFO (Using_E2E_parameters GetDefaultE2EParams), Call_Login (Cmix 1) identity0,
        Call_writeContact contactFilePath (Contact 7), Call_UnmarshalJSON (Some ''key''),
        Call_NewServer 7 0 2 (Cmix 1), Call_StartNetworkFollower networkFollowerTimeout,
        Call_AddHealthCallback, Call_NewTimer waitTimeout, Received False,
        INFO (Network_Status False), Received True, INFO (Network_Status True)]
   \<and> outcome (main_server 0 env_ok) = Inl Blocked_forever"
proof -
  have a: "outcome (session env_ok) = Inr (Cmix 1, identity0, e2e0)"
    "trace (session env_ok) =
      [Call_initLog 1 ''client.log'', Call_Stat statePath, Call_LoadCmix statePath statePass,
       Call_LoadReceptionIdentity identityStorageKey (Cmix 1),
       INFO (Using_E2E_parameters GetDefaultE2EParams), Call_Login (Cmix 1) identity0]"
    by (simp_all add: session_env_ok outcome_def trace_def)
  have w: "outcome (awaitHealth env_ok) = Inr ()"
    "trace (awaitHealth env_ok) =
      [Call_AddHealthCallback, Call_NewTimer waitTimeout, Received False,
       INFO (Network_Status False), Received True, INFO (Network_Status True)]"
    by (simp_all add: awaitHealth_env_ok outcome_def trace_def)
  have b: "UnmarshalJSON env_ok (DHKeyPrivate (GetReceptionIdentity e2e0)) = None"
    "StartNetworkFollower env_ok networkFollowerTimeout = None"
    "ID (GetReceptionIdentity e2e0) = 7" "GetGroup e2e0 = 2" "GetCmix e2e0 = Cmix 1"
    "DHKeyPrivate (GetReceptionIdentity e2e0) = Some ''key''" "GetContact identity0 = Contact 7"
    by (simp_all add: env_ok_def e2e0_def identity0_def)
  show ?thesis
    using sender_acts_after_gate_server_before_follower [of env_ok 0 "Cmix 1" identity0 e2e0] a w b
    by (simp add: from_follower_start_def)
qed

text \<open>
  C2 as stated, that no serving or sending step comes before the wait has seen \<open>true\<close>,
  fails for the server: in the run where every call succeeds, \<open>single.NewServer\<close>
  (line 120) is in the part of the trace before \<open>true\<close> is received (line 140).
\<close>

theorem server_made_before_connected:
  "filter is_action (before_connected (trace (main_server 0 env_ok))) =
     [Call_NewServer 7 0 2 (Cmix 1)]
   \<and> filter is_action (before_connected (trace (main_server 0 env_ok))) \<noteq> []"
  by (simp add: main_server_def session_def initState_def loadState_def
      loadOrMakeIdentity_def login_def awaitHealth_def waitUntilConnected_def
      env_ok_def errors_Is_ErrNotExist_def before_connected_def identity0_def e2e0_def
      Let_def run_defs)

section \<open>A network follower that does not start\<close>

text \<open>
  C3. When \<open>StartNetworkFollower\<close> returns an error, the sender prints it (line 272)
  and goes on: it registers the health callback, waits, connects, sends and blocks. The
  server panics at the same point (line 129).
\<close>

theorem sender_continues_after_follower_failure:
  "main_sender env_follower_fails =
     ([Call_initLog 1 ''client.log'', Call_Stat statePath, Call_LoadCmix statePath statePass,
       Call_LoadReceptionIdentity identityStorageKey (Cmix 1),
       INFO (Using_E2E_parameters GetDefaultE2EParams), Call_Login (Cmix 1) identity0,
       Call_StartNetworkFollower networkFollowerTimeout,
       Printf (Failed_to_start_network_follower (ErrOther ''follower'')),
       Call_AddHealthCallback, Call_NewTimer waitTimeout,
       Received False, INFO (Network_Status False), Received True, INFO (Network_Status True),
       Call_ReadFile serverContactPath, Call_Unmarshal (Some ''data''),
       INFO (Recipient_contact (Contact 8)), Call_Connect (Contact 8) e2e0,
       INFO (Connect_successfully_established (Contact 8)),
       Call_RegisterListener (Handler 3) NoType listener_name,
       Call_SendE2E (Handler 3) XxMessage msgBody,
       INFO (Message_sent 9 [41, 42] 1000)],
      Inl Blocked_forever)
   \<and> outcome (main_server 0 env_follower_fails) =
       Inl (Panicked (Failed_to_start_network_follower (ErrOther ''follower'')))"
  by (simp add: main_sender_def main_server_def session_def initState_def loadState_def
      loadOrMakeIdentity_def login_def awaitHealth_def waitUntilConnected_def connectAndSend_def
      env_follower_fails_def env_ok_def errors_Is_ErrNotExist_def sent1_def Let_def run_defs)

section \<open>The local network definition comes first\<close>

text \<open>
  C4. When the read of the local network definition yields a slice that is not nil (so
  for every file that is there and not empty), the resolver returns these bytes, neither
  program reads the certificate or downloads anything whatever the download would answer,
  and when the state is absent \<open>NewCmix\<close> is called once, with these very bytes. The
  certificate is read or the download made only when the local read yields nil.
\<close>

theorem local_ndf_used_without_remote_fetch:
  "(fst (ReadFile e ndfPath) = Some bs \<longrightarrow>
      outcome (resolveNdf e) = Inr (Some bs)
    \<and> filter is_remote_fetch (trace (resolveNdf e)) = []
    \<and> filter is_remote_fetch (trace (main_server k e)) = []
    \<and> filter is_remote_fetch (trace (main_sender e)) = []
    \<and> (errors_Is_ErrNotExist (Stat e statePath) \<longrightarrow>
         filter is_NewCmix (trace (initState e)) = [Call_NewCmix bs statePath statePass []]))
   \<and> (filter is_remote_fetch (trace (resolveNdf e)) \<noteq> [] \<longrightarrow> fst (ReadFile e ndfPath) = None)"
proof (intro conjI impI)
  assume "filter is_remote_fetch (trace (resolveNdf e)) \<noteq> []"
  then show "fst (ReadFile e ndfPath) = None"
    using resolveNdf_local [of e] by (cases "fst (ReadFile e ndfPath)") auto
qed (simp_all add: resolveNdf_local main_server_local main_sender_local initState_local_NewCmix)

text \<open>
  A run with the local network definition on disk and no state, and for the last part a run
  with nothing on disk.
\<close>

theorem local_ndf_used_without_remote_fetch_witness:
  "fst (ReadFile env_cached ndfPath) = Some ''data''
   \<and> outcome (resolveNdf env_cached) = Inr (Some ''data'')
   \<and> filter is_remote_fetch (trace (resolveNdf env_cached)) = []
   \<and> filter is_remote_fetch (trace (main_server 0 env_cached)) = []
   \<and> filter is_remote_fetch (trace (main_sender env_cached)) = []
   \<and> errors_Is_ErrNotExist (Stat env_cached statePath)
   \<and> filter is_NewCmix (trace (initState env_cached)) = [Call_NewCmix ''data'' statePath statePass []]
   \<and> filter is_remote_fetch (trace (resolveNdf env_fresh)) \<noteq> []
   \<and> fst (ReadFile env_fresh ndfPath) = None"
proof -
  have h: "fst (ReadFile env_cached ndfPath) = Some ''data''"
    and s: "errors_Is_ErrNotExist (Stat env_cached statePath)"
    by (simp_all add: env_cached_def env_ok_def errors_Is_ErrNotExist_def)
  have f: "filter is_remote_fetch (trace (resolveNdf env_fresh)) \<noteq> []"
    by (simp add: env_fresh_def env_ok_def resolveNdf_def run_simps path_defs)
  show ?thesis
    using local_ndf_used_without_remote_fetch [of env_cached "''data''" 0] local_ndf_used_without_remote_fetch [of env_fresh "''data''" 0] h s f by simp
qed

section \<open>State that exists is not initialised again\<close>

text \<open>
  C5. When \<open>os.Stat\<close> does not report the state as absent, the state stage is the one
  call of \<open>os.Stat\<close>: both programs go from logging and \<open>os.Stat\<close> straight to
  \<open>LoadCmix\<close> and never call \<open>NewCmix\<close>. For two runs, \<open>ea\<close> and then \<open>eb\<close>,
  the second of which finds the state: they call \<open>NewCmix\<close> once when the first run
  found no state and got a network definition, and not at all otherwise.
\<close>

theorem existing_state_skips_initialization:
  "(\<not> errors_Is_ErrNotExist (Stat e statePath) \<longrightarrow>
       initState e = ([Call_Stat statePath], Inr ())
     \<and> take 3 (trace (main_server k e)) =
         [Call_initLog 1 ''client.log'', Call_Stat statePath, Call_LoadCmix statePath statePass]
     \<and> take 3 (trace (main_sender e)) =
         [Call_initLog 1 ''client.log'', Call_Stat statePath, Call_LoadCmix statePath statePass]
     \<and> initializations (trace (main_server k e)) = 0
     \<and> initializations (trace (main_sender e)) = 0)
   \<and> (\<not> errors_Is_ErrNotExist (Stat eb statePath) \<longrightarrow>
       initializations (trace (main_server k ea) @ trace (main_server k eb)) =
         (if errors_Is_ErrNotExist (Stat ea statePath) \<and> \<not> isl (outcome (resolveNdf ea))
          then 1 else 0)
     \<and> initializations (trace (main_sender ea) @ trace (main_sender eb)) =
         (if errors_Is_ErrNotExist (Stat ea statePath) \<and> \<not> isl (outcome (resolveNdf ea))
          then 1 else 0))"
  by (simp add: initState_present main_server_inits main_sender_inits initializations_append
      main_server_present main_sender_present)

text \<open>
  A run with the state on disk, and a run with nothing on disk followed by a run with the
  state on disk.
\<close>

theorem existing_state_skips_initialization_witness:
  "\<not> errors_Is_ErrNotExist (Stat env_ok statePath)
   \<and> initState env_ok = ([Call_Stat statePath], Inr ())
   \<and> take 3 (trace (main_server 0 env_ok)) =
       [Call_initLog 1 ''client.log'', Call_Stat statePath, Call_LoadCmix statePath statePass]
   \<and> take 3 (trace (main_sender env_ok)) =
       [Call_initLog 1 ''client.log'', Call_Stat statePath, Call_LoadCmix statePath statePass]
   \<and> initializations (trace (main_server 0 env_ok)) = 0
   \<and> initializations (trace (main_sender env_ok)) = 0
   \<and> initializations (trace (main_server 0 env_fresh) @ trace (main_server 0 env_ok)) = 1
   \<and> initializations (trace (main_sender env_fresh) @ trace (main_sender env_ok)) = 1"
proof -
  have h: "\<not> errors_Is_ErrNotExist (Stat env_ok statePath)"
    by (simp add: env_ok_def errors_Is_ErrNotExist_def)
  have f: "errors_Is_ErrNotExist (Stat env_fresh statePath)"
    "\<not> isl (outcome (resolveNdf env_fresh))"
    by (simp_all add: stage_defs env_fresh_def env_ok_def run_defs ndfPath_def certificatePath_def)
  show ?thesis
    using existing_state_skips_initialization [of env_ok 0 env_ok env_fresh] h f by simp
qed

section \<open>The reception identity\<close>



section \<open>The remote network definition\<close>

text \<open>
  C7. When the read of the local network definition yields nil: an error reading the
  certificate panics without any download; an error from
  \<open>DownloadAndVerifySignedNdfWithUrl\<close> panics after that one call; when the state is
  absent a resolver that panics ends both programs with that panic and without a call of
  \<open>NewCmix\<close>; and a call of \<open>NewCmix\<close> gets what a download without error returned.
\<close>

theorem remote_ndf_failures_are_fatal:
  "fst (ReadFile e ndfPath) = None \<longrightarrow>
     (snd (ReadFile e certificatePath) = Some x \<longrightarrow>
         outcome (resolveNdf e) = Inl (Panicked (Failed_to_read_certificate x))
       \<and> filter is_download (trace (resolveNdf e)) = [])
   \<and> (snd (ReadFile e certificatePath) = None \<and>
      snd (DownloadAndVerifySignedNdfWithUrl e ndfURL
             (string_of (fst (ReadFile e certificatePath)))) = Some y \<longrightarrow>
         outcome (resolveNdf e) = Inl (Panicked (Failed_to_download_NDF y))
       \<and> filter is_download (trace (resolveNdf e)) =
           [Call_DownloadAndVerifySignedNdfWithUrl ndfURL
              (string_of (fst (ReadFile e certificatePath)))])
   \<and> (errors_Is_ErrNotExist (Stat e statePath) \<and> outcome (resolveNdf e) = Inl h \<longrightarrow>
         outcome (main_server k e) = Inl h
       \<and> outcome (main_sender e) = Inl h
       \<and> initializations (trace (main_server k e)) = 0
       \<and> initializations (trace (main_sender e)) = 0)
   \<and> (filter is_NewCmix (trace (initState e)) \<noteq> [] \<longrightarrow>
         snd (ReadFile e certificatePath) = None
       \<and> snd (DownloadAndVerifySignedNdfWithUrl e ndfURL
                (string_of (fst (ReadFile e certificatePath)))) = None
       \<and> filter is_NewCmix (trace (initState e)) =
           [Call_NewCmix
              (string_of (fst (DownloadAndVerifySignedNdfWithUrl e ndfURL
                 (string_of (fst (ReadFile e certificatePath))))))
              statePath statePass []])"
proof (intro impI conjI; (elim conjE)?)
  assume n: "fst (ReadFile e ndfPath) = None"
  {
    assume "snd (ReadFile e certificatePath) = Some x"
    from resolveNdf_no_cert [OF n this]
    show "outcome (resolveNdf e) = Inl (Panicked (Failed_to_read_certificate x))"
      "filter is_download (trace (resolveNdf e)) = []"
      by simp_all
  }
  {
    assume "snd (ReadFile e certificatePath) = None"
      "snd (DownloadAndVerifySignedNdfWithUrl e ndfURL
             (string_of (fst (ReadFile e certificatePath)))) = Some y"
    from resolveNdf_download_fails [OF n this]
    show "outcome (resolveNdf e) = Inl (Panicked (Failed_to_download_NDF y))"
      "filter is_download (trace (resolveNdf e)) =
           [Call_DownloadAndVerifySignedNdfWithUrl ndfURL
              (string_of (fst (ReadFile e certificatePath)))]"
      by simp_all
  }
  {
    assume s: "errors_Is_ErrNotExist (Stat e statePath)" and r: "outcome (resolveNdf e) = Inl h"
    have "outcome (session e) = Inl h"
      using initState_halts [OF s r] by (rule session_halts)
    then show "outcome (main_server k e) = Inl h" "outcome (main_sender e) = Inl h"
      by (simp_all add: main_server_halts main_sender_halts)
    show "initializations (trace (main_server k e)) = 0"
      "initializations (trace (main_sender e)) = 0"
      using r by (simp_all add: main_server_inits main_sender_inits)
  }
  {
    assume "filter is_NewCmix (trace (initState e)) \<noteq> []"
    from initState_remote_NewCmix [OF n this]
    show "snd (ReadFile e certificatePath) = None"
      "snd (DownloadAndVerifySignedNdfWithUrl e ndfURL
                (string_of (fst (ReadFile e certificatePath)))) = None"
      "filter is_NewCmix (trace (initState e)) =
           [Call_NewCmix
              (string_of (fst (DownloadAndVerifySignedNdfWithUrl e ndfURL
                 (string_of (fst (ReadFile e certificatePath))))))
              statePath statePass []]"
      by simp_all
  }
qed

text \<open>
  No certificate; a download that does not verify; and a download that succeeds.
\<close>

theorem remote_ndf_failures_are_fatal_witness:
  "fst (ReadFile env_no_cert ndfPath) = None
   \<and> snd (ReadFile env_no_cert certificatePath) = Some ErrNotExist
   \<and> outcome (resolveNdf env_no_cert) = Inl (Panicked (Failed_to_read_certificate ErrNotExist))
   \<and> filter is_download (trace (resolveNdf env_no_cert)) = []
   \<and> errors_Is_ErrNotExist (Stat env_no_cert statePath)
   \<and> outcome (main_server 0 env_no_cert) =
       Inl (Panicked (Failed_to_read_certificate ErrNotExist))
   \<and> outcome (main_sender env_no_cert) = Inl (Panicked (Failed_to_read_certificate ErrNotExist))
   \<and> initializations (trace (main_server 0 env_no_cert)) = 0
   \<and> initializations (trace (main_sender env_no_cert)) = 0
   \<and> fst (ReadFile env_bad_signature ndfPath) = None
   \<and> snd (ReadFile env_bad_signature certificatePath) = None
   \<and> snd (DownloadAndVerifySignedNdfWithUrl env_bad_signature ndfURL
            (string_of (fst (ReadFile env_bad_signature certificatePath)))) =
       Some (ErrOther ''signature'')
   \<and> outcome (resolveNdf env_bad_signature) =
       Inl (Panicked (Failed_to_download_NDF (ErrOther ''signature'')))
   \<and> filter is_download (trace (resolveNdf env_bad_signature)) =
       [Call_DownloadAndVerifySignedNdfWithUrl ndfURL ''data'']
   \<and> errors_Is_ErrNotExist (Stat env_bad_signature statePath)
   \<and> outcome (main_server 0 env_bad_signature) =
       Inl (Panicked (Failed_to_download_NDF (ErrOther ''signature'')))
   \<and> outcome (main_sender env_bad_signature) =
       Inl (Panicked (Failed_to_download_NDF (ErrOther ''signature'')))
   \<and> initializations (trace (main_server 0 env_bad_signature)) = 0
   \<and> initializations (trace (main_sender env_bad_signature)) = 0
   \<and> fst (ReadFile env_fresh ndfPath) = None
   \<and> filter is_NewCmix (trace (initState env_fresh)) \<noteq> []
   \<and> snd (DownloadAndVerifySignedNdfWithUrl env_fresh ndfURL
            (string_of (fst (ReadFile env_fresh certificatePath)))) = None
   \<and> filter is_NewCmix (trace (initState env_fresh)) =
       [Call_NewCmix ''ndf'' statePath statePass []]"
proof -
  have a: "fst (ReadFile env_no_cert ndfPath) = None"
    "snd (ReadFile env_no_cert certificatePath) = Some ErrNotExist"
    "errors_Is_ErrNotExist (Stat env_no_cert statePath)"
    by (simp_all add: env_no_cert_def env_fresh_def env_ok_def errors_Is_ErrNotExist_def)
  have b: "fst (ReadFile env_bad_signature ndfPath) = None"
    "snd (ReadFile env_bad_signature certificatePath) = None"
    "snd (DownloadAndVerifySignedNdfWithUrl env_bad_signature ndfURL
            (string_of (fst (ReadFile env_bad_signature certificatePath)))) =
       Some (ErrOther ''signature'')"
    "string_of (fst (ReadFile env_bad_signature certificatePath)) = ''data''"
    "errors_Is_ErrNotExist (Stat env_bad_signature statePath)"
    by (simp_all add: env_bad_signature_def env_fresh_def env_ok_def errors_Is_ErrNotExist_def
        ndfPath_def certificatePath_def string_of_def)
  have c: "fst (ReadFile env_fresh ndfPath) = None"
    "filter is_NewCmix (trace (initState env_fresh)) \<noteq> []"
    "fst (DownloadAndVerifySignedNdfWithUrl env_fresh ndfURL
            (string_of (fst (ReadFile env_fresh certificatePath)))) = Some ''ndf''"
    by (simp_all add: stage_defs env_fresh_def env_ok_def run_defs ndfPath_def certificatePath_def)
  show ?thesis
    using remote_ndf_failures_are_fatal [of env_no_cert ErrNotExist _ "Panicked (Failed_to_read_certificate ErrNotExist)" 0]
      remote_ndf_failures_are_fatal [of env_bad_signature _ "ErrOther ''signature''"
        "Panicked (Failed_to_download_NDF (ErrOther ''signature''))" 0]
      remote_ndf_failures_are_fatal [of env_fresh] a b c
    by (simp add: string_of_def)
qed

section \<open>A send that fails\<close>

text \<open>
  C8. In a run of the sender that has logged in, passed the wait, opened the channel and
  registered the listener, an error from \<open>SendE2E\<close> is printed, nothing panics, and
  the run ends in the final \<open>select {}\<close>.
\<close>

theorem send_failure_is_not_fatal:
  "outcome (session e) = Inr (c, i, c2) \<and> outcome (awaitHealth e) = Inr () \<and>
   ReadFile e serverContactPath = (d, None) \<and> Unmarshal e d = Inr rc \<and>
   Connect e rc c2 GetDefaultE2EParams = Inr h \<and>
   RegisterListener e h NoType listener_name = None \<and>
   SendE2E e h XxMessage msgBody (Base GetDefaultE2EParams) = (s, Some x) \<longrightarrow>
     outcome (main_sender e) = Inl Blocked_forever
   \<and> filter is_FATAL (trace (main_sender e)) = []
   \<and> Printf (Failed_to_send_message x) \<in> set (trace (main_sender e))"
proof (intro impI, elim conjE)
  assume a: "outcome (session e) = Inr (c, i, c2)" and w: "outcome (awaitHealth e) = Inr ()"
    and b: "ReadFile e serverContactPath = (d, None)" "Unmarshal e d = Inr rc"
      "Connect e rc c2 GetDefaultE2EParams = Inr h"
      "RegisterListener e h NoType listener_name = None"
      "SendE2E e h XxMessage msgBody (Base GetDefaultE2EParams) = (s, Some x)"
  note cs = connectAndSend_send_fails [OF b]
  show "outcome (main_sender e) = Inl Blocked_forever
   \<and> filter is_FATAL (trace (main_sender e)) = []
   \<and> Printf (Failed_to_send_message x) \<in> set (trace (main_sender e))"
    using main_sender_run [OF a] w
    by (simp add: cs session_no_FATAL [OF a] awaitHealth_no_FATAL follower_report_simps
        trace_def [of "(x, y)" for x y] outcome_def [of "(x, y)" for x y])
qed

text \<open>The run in which only \<open>SendE2E\<close> fails.\<close>

theorem send_failure_is_not_fatal_witness:
  "outcome (session env_send_fails) = Inr (Cmix 1, identity0, e2e0)
   \<and> outcome (awaitHealth env_send_fails) = Inr ()
   \<and> ReadFile env_send_fails serverContactPath = (Some ''data'', None)
   \<and> Unmarshal env_send_fails (Some ''data'') = Inr (Contact 8)
   \<and> Connect env_send_fails (Contact 8) e2e0 GetDefaultE2EParams = Inr (Handler 3)
   \<and> RegisterListener env_send_fails (Handler 3) NoType listener_name = None
   \<and> SendE2E env_send_fails (Handler 3) XxMessage msgBody (Base GetDefaultE2EParams) =
       (sent0, Some (ErrOther ''send''))
   \<and> outcome (main_sender env_send_fails) = Inl Blocked_forever
   \<and> filter is_FATAL (trace (main_sender env_send_fails)) = []
   \<and> Printf (Failed_to_send_message (ErrOther ''send'')) \<in> set (trace (main_sender env_send_fails))"
proof -
  have a: "ReadFile env_send_fails serverContactPath = (Some ''data'', None)"
    "Unmarshal env_send_fails (Some ''data'') = Inr (Contact 8)"
    "Connect env_send_fails (Contact 8) e2e0 GetDefaultE2EParams = Inr (Handler 3)"
    "RegisterListener env_send_fails (Handler 3) NoType listener_name = None"
    "SendE2E env_send_fails (Handler 3) XxMessage msgBody (Base GetDefaultE2EParams) =
       (sent0, Some (ErrOther ''send''))"
    by (simp_all add: env_send_fails_def env_ok_def)
  show ?thesis
    using send_failure_is_not_fatal [of env_send_fails "Cmix 1" identity0 e2e0 "Some ''data''" "Contact 8" "Handler 3"
        sent0 "ErrOther ''send''"]
      a session_env_send_fails awaitHealth_env_send_fails
    by simp
qed

section \<open>The contact file of the server\<close>

text \<open>
  C9. In every run of the server in which login succeeds, whatever \<open>os.Stat\<close> and
  \<open>LoadReceptionIdentity\<close> answered, the call of \<open>Login\<close> is the last step of the
  session stage and \<open>writeContact\<close> the very next step of the run, before the follower
  is started or anything is received from the channel; after the run the contact file
  holds the identity's contact, whatever it held before, and no other file has changed.
\<close>

theorem contact_written_after_login:
  "outcome (session e) = Inr (c, i, c2) \<longrightarrow>
     last (trace (session e)) = Call_Login c i
   \<and> take (length (trace (session e)) + 1) (trace (main_server k e)) =
       trace (session e) @ [Call_writeContact contactFilePath (GetContact i)]
   \<and> filter is_connectivity (trace (session e)) = []
   \<and> files_after (trace (main_server k e)) files = files(contactFilePath \<mapsto> GetContact i)"
proof
  assume a: "outcome (session e) = Inr (c, i, c2)"
  have "files_after (trace (main_server k e)) files = files(contactFilePath \<mapsto> GetContact i)"
    by (simp add: main_server_run [OF a] files_after_append files_after_session
        files_after_awaitHealth writeContact_def split: option.splits)
  then show "last (trace (session e)) = Call_Login c i
   \<and> take (length (trace (session e)) + 1) (trace (main_server k e)) =
       trace (session e) @ [Call_writeContact contactFilePath (GetContact i)]
   \<and> filter is_connectivity (trace (session e)) = []
   \<and> files_after (trace (main_server k e)) files = files(contactFilePath \<mapsto> GetContact i)"
    by (simp add: session_last_Login [OF a] main_server_run [OF a] session_no_connectivity)
qed

text \<open>
  The run with state and identity on disk, and another contact in the contact file.
\<close>

theorem contact_written_after_login_witness:
  "outcome (session env_ok) = Inr (Cmix 1, identity0, e2e0)
   \<and> \<not> errors_Is_ErrNotExist (Stat env_ok statePath)
   \<and> LoadReceptionIdentity env_ok identityStorageKey (Cmix 1) = Inr identity0
   \<and> last (trace (session env_ok)) = Call_Login (Cmix 1) identity0
   \<and> take (length (trace (session env_ok)) + 1) (trace (main_server 0 env_ok)) =
       trace (session env_ok) @ [Call_writeContact contactFilePath (Contact 7)]
   \<and> filter is_connectivity (trace (session env_ok)) = []
   \<and> files_after (trace (main_server 0 env_ok)) [contactFilePath \<mapsto> Contact 99] =
       [contactFilePath \<mapsto> Contact 7]"
proof -
  have a: "outcome (session env_ok) = Inr (Cmix 1, identity0, e2e0)"
    by (simp add: session_env_ok outcome_def)
  have b: "\<not> errors_Is_ErrNotExist (Stat env_ok statePath)"
    "LoadReceptionIdentity env_ok identityStorageKey (Cmix 1) = Inr identity0"
    "GetContact identity0 = Contact 7"
    by (simp_all add: env_ok_def errors_Is_ErrNotExist_def identity0_def)
  show ?thesis
    using contact_written_after_login [of env_ok "Cmix 1" identity0 e2e0 0 "[contactFilePath \<mapsto> Contact 99]"] a b
    by simp
qed

section \<open>The log line after a send that fails\<close>

text \<open>
  C10. When \<open>SendE2E\<close> returns an error beside the values \<open>s\<close>, the sender prints the
  error and then logs the message as sent, with the message id, the round ids and the time
  of \<open>s\<close>; \<open>SendE2E\<close> is called once in the run, the log line is the last step of
  the run, and the run ends in the final \<open>select {}\<close>.
\<close>

theorem failed_send_logged_as_sent:
  "ReadFile e serverContactPath = (d, None) \<and> Unmarshal e d = Inr rc \<and>
   Connect e rc c2 GetDefaultE2EParams = Inr h \<and>
   RegisterListener e h NoType listener_name = None \<and>
   SendE2E e h XxMessage msgBody (Base GetDefaultE2EParams) = (s, Some x) \<longrightarrow>
     connectAndSend e c2 =
       ([Call_ReadFile serverContactPath, Call_Unmarshal d, INFO (Recipient_contact rc),
         Call_Connect rc c2, INFO (Connect_successfully_established rc),
         Call_RegisterListener h NoType listener_name, Call_SendE2E h XxMessage msgBody,
         Printf (Failed_to_send_message x),
         INFO (Message_sent (messageID s) (roundIDs s) (timeSent s))], Inr ())
   \<and> (outcome (session e) = Inr (c, i, c2) \<and> outcome (awaitHealth e) = Inr () \<longrightarrow>
         filter is_SendE2E (trace (main_sender e)) = [Call_SendE2E h XxMessage msgBody]
       \<and> last (trace (main_sender e)) =
           INFO (Message_sent (messageID s) (roundIDs s) (timeSent s))
       \<and> outcome (main_sender e) = Inl Blocked_forever)"
proof (intro impI, elim conjE)
  assume b: "ReadFile e serverContactPath = (d, None)" "Unmarshal e d = Inr rc"
      "Connect e rc c2 GetDefaultE2EParams = Inr h"
      "RegisterListener e h NoType listener_name = None"
      "SendE2E e h XxMessage msgBody (Base GetDefaultE2EParams) = (s, Some x)"
  note cs = connectAndSend_send_fails [OF b]
  have "filter is_SendE2E (trace (main_sender e)) = [Call_SendE2E h XxMessage msgBody]
       \<and> last (trace (main_sender e)) =
           INFO (Message_sent (messageID s) (roundIDs s) (timeSent s))
       \<and> outcome (main_sender e) = Inl Blocked_forever"
    if a: "outcome (session e) = Inr (c, i, c2)" and w: "outcome (awaitHealth e) = Inr ()"
    using main_sender_run [OF a] w
    by (simp add: cs session_no_SendE2E awaitHealth_no_SendE2E follower_report_simps
        trace_def [of "(x, y)" for x y] outcome_def [of "(x, y)" for x y])
  with cs show "connectAndSend e c2 =
       ([Call_ReadFile serverContactPath, Call_Unmarshal d, INFO (Recipient_contact rc),
         Call_Connect rc c2, INFO (Connect_successfully_established rc),
         Call_RegisterListener h NoType listener_name, Call_SendE2E h XxMessage msgBody,
         Printf (Failed_to_send_message x),
         INFO (Message_sent (messageID s) (roundIDs s) (timeSent s))], Inr ())
   \<and> (outcome (session e) = Inr (c, i, c2) \<and> outcome (awaitHealth e) = Inr () \<longrightarrow>
         filter is_SendE2E (trace (main_sender e)) = [Call_SendE2E h XxMessage msgBody]
       \<and> last (trace (main_sender e)) =
           INFO (Message_sent (messageID s) (roundIDs s) (timeSent s))
       \<and> outcome (main_sender e) = Inl Blocked_forever)"
    by blast
qed

text \<open>
  The run in which only \<open>SendE2E\<close> fails, returning zero values beside its error.
\<close>

theorem failed_send_logged_as_sent_witness:
  "ReadFile env_send_fails serverContactPath = (Some ''data'', None)
   \<and> Unmarshal env_send_fails (Some ''data'') = Inr (Contact 8)
   \<and> Connect env_send_fails (Contact 8) e2e0 GetDefaultE2EParams = Inr (Handler 3)
   \<and> RegisterListener env_send_fails (Handler 3) NoType listener_name = None
   \<and> SendE2E env_send_fails (Handler 3) XxMessage msgBody (Base GetDefaultE2EParams) =
       (sent0, Some (ErrOther ''send''))
   \<and> connectAndSend env_send_fails e2e0 =
       ([Call_ReadFile serverContactPath, Call_Unmarshal (Some ''data''),
         INFO (Recipient_contact (Contact 8)), Call_Connect (Contact 8) e2e0,
         INFO (Connect_successfully_established (Contact 8)),
         Call_RegisterListener (Handler 3) NoType listener_name,
         Call_SendE2E (Handler 3) XxMessage msgBody,
         Printf (Failed_to_send_message (ErrOther ''send'')),
         INFO (Message_sent 0 [] 0)], Inr ())
   \<and> outcome (session env_send_fails) = Inr (Cmix 1, identity0, e2e0)
   \<and> outcome (awaitHealth env_send_fails) = Inr ()
   \<and> filter is_SendE2E (trace (main_sender env_send_fails)) =
       [Call_SendE2E (Handler 3) XxMessage msgBody]
   \<and> last (trace (main_sender env_send_fails)) = INFO (Message_sent 0 [] 0)
   \<and> outcome (main_sender env_send_fails) = Inl Blocked_forever"
proof -
  have a: "ReadFile env_send_fails serverContactPath = (Some ''data'', None)"
    "Unmarshal env_send_fails (Some ''data'') = Inr (Contact 8)"
    "Connect env_send_fails (Contact 8) e2e0 GetDefaultE2EParams = Inr (Handler 3)"
    "RegisterListener env_send_fails (Handler 3) NoType listener_name = None"
    "SendE2E env_send_fails (Handler 3) XxMessage msgBody (Base GetDefaultE2EParams) =
       (sent0, Some (ErrOther ''send''))"
    by (simp_all add: env_send_fails_def env_ok_def)
  show ?thesis
    using failed_send_logged_as_sent [of env_send_fails "Some ''data''" "Contact 8" e2e0 "Handler 3" sent0
        "ErrOther ''send''" "Cmix 1" identity0]
      a session_env_send_fails awaitHealth_env_send_fails
    by (simp add: sent0_def)
qed

end
